theory Spec2Isabelle
  imports Main "HOL-Library.Word"
begin

section \<open>Session lifecycle of the Tudor device (libfprint-tod/src/open.c)\<close>

text \<open>
  The driver delegates sensor I/O to a helper ("host") process. \<open>open.c\<close> holds the
  two public operations \<open>fpi_device_tudor_open\<close> and \<open>fpi_device_tudor_close\<close>, the three
  callbacks \<open>host_exit_cb\<close>, \<open>open_recv_cb\<close> and \<open>close_timeout_cb\<close>, and the disposal routine
  \<open>dispose_dev\<close>. All of them run on the single event loop of the device, so the model is
  sequential: every C function is a function from a world to a world. The world carries the
  fields of \<open>FpiDeviceTudor\<close> that the file reads or writes, and a trace to which every call
  that leaves the file (GLib, libfprint, libc, the IPC layer) is appended in program order.
\<close>

subsection \<open>Data\<close>

text \<open>Tags of \<open>enum ipc_msg_type\<close>; the file names three of them, every other tag of the
  enumeration is \<open>IPC_MSG_OTHER\<close> with its number.\<close>

datatype ipc_msg_type = IPC_MSG_INIT | IPC_MSG_READY | IPC_MSG_SHUTDOWN | IPC_MSG_OTHER nat

datatype log_level = LOG_DEBUG | LOG_LEVEL_OTHER nat

text \<open>The two sizes the file stores in a message buffer, kept symbolic.\<close>

datatype msg_size = Sizeof_unset | Sizeof_ipc_msg_init | Sizeof_ipc_msg_type

text \<open>A \<open>GError\<close>: either the protocol error that \<open>open_recv_cb\<close> creates itself
  (\<open>FP_DEVICE_ERROR_PROTO\<close>, with the offending tag in its message), or an error handed over
  by a collaborator, identified by an opaque number.\<close>

datatype gerror = FP_DEVICE_ERROR_PROTO ipc_msg_type | GError_from_callee nat

text \<open>A reference to a \<open>GObject\<close> is the identity of the object; \<open>NULL\<close> is \<open>None\<close>.\<close>

type_synonym gobject = nat

text \<open>\<open>IPCMessageBuf\<close>: the descriptor to transfer, the size, and the union of message
  structs. Every struct of the union starts with the tag, so \<open>type_msg\<close> is the one tag field;
  the other three fields are the rest of \<open>struct ipc_msg_init\<close>.\<close>

record IPCMessageBuf =
  transfer_fd :: int
  size_msg :: msg_size
  type_msg :: ipc_msg_type
  init_log_level :: log_level
  init_usb_bus :: "8 word"
  init_usb_addr :: "8 word"

record FpiDeviceTudor =
  host_has_id :: bool
  host_id :: "32 word"
  host_dead :: bool
  in_shutdown :: bool
  ipc_cancel :: "gobject option"
  ipc_socket :: "gobject option"
  dbus_con :: "gobject option"
  send_msg :: IPCMessageBuf

datatype log_msg =
    Warn_cleanup_error gerror
  | Debug_disposed
  | Warn_host_died int
  | Debug_cancelled_ipc "32 word"
  | Info_ready "32 word"
  | Warn_start_failed gerror
  | Info_started "32 word"
  | Debug_initialized "32 word" "8 word" "8 word"
  | Warn_shutdown_timeout

text \<open>Every call that leaves \<open>open.c\<close>, as an entry of the trace.\<close>

datatype effect =
    Kill_host_process "32 word"
  | Log log_msg
  | G_object_unref gobject
  | G_cancellable_cancel gobject
  | G_usb_device_open
  | G_usb_device_close
  | Fpi_device_open_complete "gerror option"
  | Fpi_device_close_complete "gerror option"
  | Ipc_msg_buf_free IPCMessageBuf
  | G_bus_get_sync
  | Register_host_process_monitor
  | Start_host_process
  | G_socket_new_from_fd int
  | G_socket_set_timeout gobject
  | G_cancellable_new
  | Dup_usb_fd
  | Close_fd int
  | Send_ipc_msg IPCMessageBuf
  | Recv_ipc_msg
  | Fpi_device_add_timeout
  | Assertion_failed

text \<open>The world: the device, the trace, whether an asynchronous receive with
  \<open>open_recv_cb\<close> as its callback is outstanding, and whether a failed
  \<open>g_assert_no_errno\<close> has aborted the process.\<close>

record world =
  tdev :: FpiDeviceTudor
  trace :: "effect list"
  recv_pending :: bool
  aborted :: bool

definition emit :: "effect list \<Rightarrow> world \<Rightarrow> world" where
  "emit es w = w\<lparr>trace := trace w @ es\<rparr>"

text \<open>What a run from \<open>w\<close> to \<open>w'\<close> appended to the trace.\<close>

definition new_effects :: "world \<Rightarrow> world \<Rightarrow> effect list" where
  "new_effects w w' = drop (length (trace w)) (trace w')"

subsection \<open>Collaborators\<close>

text \<open>Modelled from the spec: \<open>kill_host_process\<close> is declared in a header that is not
  under src/. The spec gives it the contract \<open>kill(host_id) \<rightarrow> success|error\<close>, a best-effort
  request to the launcher about the host id alone; the answer of the launcher is the
  parameter \<open>k\<close> (\<open>None\<close> when the call returns true, otherwise the error it sets), and the
  fields of the session are left as they are.\<close>

definition kill_host_process :: "gerror option \<Rightarrow> world \<Rightarrow> gerror option \<times> world" where
  "kill_host_process k w = (k, emit [Kill_host_process (host_id (tdev w))] w)"

text \<open>GLib's \<open>g_clear_object\<close> on each of the three references: drop the reference if there
  is one, and set the pointer to \<open>NULL\<close>.\<close>

definition g_clear_object_ipc_cancel :: "world \<Rightarrow> world" where
  "g_clear_object_ipc_cancel w =
     (case ipc_cancel (tdev w) of
        None \<Rightarrow> w
      | Some obj \<Rightarrow> (emit [G_object_unref obj] w)\<lparr>tdev := (tdev w)\<lparr>ipc_cancel := None\<rparr>\<rparr>)"

definition g_clear_object_ipc_socket :: "world \<Rightarrow> world" where
  "g_clear_object_ipc_socket w =
     (case ipc_socket (tdev w) of
        None \<Rightarrow> w
      | Some obj \<Rightarrow> (emit [G_object_unref obj] w)\<lparr>tdev := (tdev w)\<lparr>ipc_socket := None\<rparr>\<rparr>)"

definition g_clear_object_dbus_con :: "world \<Rightarrow> world" where
  "g_clear_object_dbus_con w =
     (case dbus_con (tdev w) of
        None \<Rightarrow> w
      | Some obj \<Rightarrow> (emit [G_object_unref obj] w)\<lparr>tdev := (tdev w)\<lparr>dbus_con := None\<rparr>\<rparr>)"

subsection \<open>The disposal routine\<close>

definition dispose_dev :: "gerror option \<Rightarrow> world \<Rightarrow> world" where
  "dispose_dev k w =
     (let w1 = (if host_has_id (tdev w) then
                  (case kill_host_process k w of
                     (None, w') \<Rightarrow> w'
                   | (Some error, w') \<Rightarrow> emit [Log (Warn_cleanup_error error)] w')
                else w);
          w2 = g_clear_object_ipc_cancel w1;
          w3 = g_clear_object_ipc_socket w2;
          w4 = g_clear_object_dbus_con w3;
          w5 = w4\<lparr>tdev := (tdev w4)\<lparr>in_shutdown := False\<rparr>\<rparr>
      in emit [Log Debug_disposed] w5)"

subsection \<open>The callbacks\<close>

text \<open>\<open>host_exit_cb\<close>: the process monitor reports that host \<open>hid\<close> exited with
  \<open>status\<close>. \<open>EXIT_SUCCESS\<close> is 0.\<close>

definition host_exit_cb :: "gerror option \<Rightarrow> 32 word \<Rightarrow> int \<Rightarrow> world \<Rightarrow> world" where
  "host_exit_cb k hid status w =
     (if host_dead (tdev w) \<or> host_id (tdev w) \<noteq> hid then w
      else
        let w1 = w\<lparr>tdev := (tdev w)\<lparr>host_dead := True\<rparr>\<rparr>;
            w2 = (if status \<noteq> 0 then emit [Log (Warn_host_died status)] w1 else w1);
            w3 = (case ipc_cancel (tdev w2) of
                    None \<Rightarrow> w2
                  | Some c \<Rightarrow>
                      emit [G_cancellable_cancel c, Log (Debug_cancelled_ipc (host_id (tdev w2)))] w2)
        in if in_shutdown (tdev w3) then
             emit [G_usb_device_open, Fpi_device_close_complete None] (dispose_dev k w3)
           else w3)"

text \<open>\<open>close_timeout_cb\<close>: the timeout armed by \<open>fpi_device_tudor_close\<close> fires.\<close>

definition close_timeout_cb :: "gerror option \<Rightarrow> world \<Rightarrow> world" where
  "close_timeout_cb k w =
     (if in_shutdown (tdev w) then
        emit [G_usb_device_open, Fpi_device_close_complete None]
          (dispose_dev k (emit [Log Warn_shutdown_timeout] w))
      else w)"

text \<open>The label \<open>error:\<close> of \<open>open_recv_cb\<close>: free the message if there is one, reopen
  the USB device, dispose, complete \<open>open()\<close> with the error.\<close>

definition open_recv_cb_error ::
  "gerror option \<Rightarrow> IPCMessageBuf option \<Rightarrow> gerror \<Rightarrow> world \<Rightarrow> world" where
  "open_recv_cb_error k msg error w =
     (let w1 = (case msg of None \<Rightarrow> w | Some m \<Rightarrow> emit [Ipc_msg_buf_free m] w);
          w2 = emit [G_usb_device_open] w1;
          w3 = dispose_dev k w2
      in emit [Fpi_device_open_complete (Some error)] w3)"

text \<open>\<open>open_recv_cb\<close>: the asynchronous receive started by \<open>fpi_device_tudor_open\<close> has
  finished; \<open>res\<close> is what \<open>g_task_propagate_pointer\<close> yields, an error (and no message) or a
  message.\<close>

definition open_recv_cb :: "gerror option \<Rightarrow> gerror + IPCMessageBuf \<Rightarrow> world \<Rightarrow> world" where
  "open_recv_cb k res w =
     (case res of
        Inl error \<Rightarrow> open_recv_cb_error k None error w
      | Inr msg \<Rightarrow>
          (case type_msg msg of
             IPC_MSG_READY \<Rightarrow>
               emit [Log (Info_ready (host_id (tdev w))), Fpi_device_open_complete None,
                     Ipc_msg_buf_free msg] w
           | _ \<Rightarrow> open_recv_cb_error k (Some msg) (FP_DEVICE_ERROR_PROTO (type_msg msg)) w))"

subsection \<open>The collaborators of open and close\<close>

text \<open>Modelled from the spec: \<open>start_host_process\<close> is not under src/. The spec:
  \<open>spawn(request) \<rightarrow> (socket_descriptor, host_id)\<close> or a failure; on success the new host id is
  registered with the session. The answer of the launcher is the parameter \<open>r\<close>.\<close>

definition start_host_process ::
  "gerror + (int \<times> 32 word) \<Rightarrow> world \<Rightarrow> (gerror + int) \<times> world" where
  "start_host_process r w =
     (case r of
        Inl error \<Rightarrow> (Inl error, emit [Start_host_process] w)
      | Inr (sock_fd, hid) \<Rightarrow>
          (Inr sock_fd,
           (emit [Start_host_process] w)\<lparr>tdev := (tdev w)\<lparr>host_has_id := True, host_id := hid\<rparr>\<rparr>))"

text \<open>Modelled from the spec: \<open>send_ipc_msg\<close> is not under src/. The spec:
  \<open>send(message, optional_descriptor) \<rightarrow> success|error\<close>, synchronous. The outcome is the
  parameter \<open>r\<close> (\<open>None\<close> when the call returns true); the trace records the buffer sent.\<close>

definition send_ipc_msg :: "gerror option \<Rightarrow> world \<Rightarrow> gerror option \<times> world" where
  "send_ipc_msg r w = (r, emit [Send_ipc_msg (send_msg (tdev w))] w)"

text \<open>Modelled from the spec: \<open>recv_ipc_msg\<close> is not under src/. The spec:
  \<open>receive_async(on_complete)\<close> begins an asynchronous read of exactly one framed message and
  invokes the callback once with the message or an error. The only callback the file passes
  is \<open>open_recv_cb\<close>.\<close>

definition recv_ipc_msg :: "world \<Rightarrow> world" where
  "recv_ipc_msg w = (emit [Recv_ipc_msg] w)\<lparr>recv_pending := True\<rparr>"

text \<open>GLib's \<open>g_assert_no_errno(expr)\<close> aborts the process unless \<open>expr >= 0\<close>; this is the
  failing side.\<close>

definition g_assert_failed :: "world \<Rightarrow> world" where
  "g_assert_failed w = (emit [Assertion_failed] w)\<lparr>aborted := True\<rparr>"

text \<open>What the environment answers to the calls that \<open>fpi_device_tudor_open\<close> makes, in the
  order of the calls.\<close>

record open_env =
  bus_get_result :: "gerror + gobject"
  start_host_result :: "gerror + (int \<times> 32 word)"
  socket_new_result :: "gerror + gobject"
  cancellable_new_result :: gobject
  dup_result :: int
  usb_bus :: "8 word"
  usb_addr :: "8 word"
  init_send_result :: "gerror option"
  close_result :: int
  open_kill_result :: "gerror option"

subsection \<open>The public operations\<close>

definition fpi_device_tudor_open :: "open_env \<Rightarrow> world \<Rightarrow> world" where
  "fpi_device_tudor_open env w =
     (let k = open_kill_result env in
      (case bus_get_result env of
        Inl error \<Rightarrow>
          emit [Fpi_device_open_complete (Some error)]
            (dispose_dev k ((emit [G_bus_get_sync] w)\<lparr>tdev := (tdev w)\<lparr>dbus_con := None\<rparr>\<rparr>))
      | Inr con \<Rightarrow>
          (let w1 = (emit [G_bus_get_sync] w)\<lparr>tdev := (tdev w)\<lparr>dbus_con := Some con\<rparr>\<rparr>;
               w2 = w1\<lparr>tdev := (tdev w1)\<lparr>host_has_id := False\<rparr>\<rparr>;
               w3 = emit [Register_host_process_monitor] w2
           in (case start_host_process (start_host_result env) w3 of
               (Inl error, w4) \<Rightarrow>
                 emit [Fpi_device_open_complete (Some error)]
                   (dispose_dev k (emit [Log (Warn_start_failed error)] w4))
             | (Inr sock_fd, w4) \<Rightarrow>
                 (let w5 = emit [Log (Info_started (host_id (tdev w4))),
                                 G_socket_new_from_fd sock_fd] w4
                  in (case socket_new_result env of
                      Inl error \<Rightarrow>
                        emit [Fpi_device_open_complete (Some error)]
                          (dispose_dev k (w5\<lparr>tdev := (tdev w5)\<lparr>ipc_socket := None\<rparr>\<rparr>))
                    | Inr sock \<Rightarrow>
                        (let w6 = (emit [G_socket_set_timeout sock, G_cancellable_new] w5)
                                    \<lparr>tdev := (tdev w5)\<lparr>ipc_socket := Some sock,
                                        ipc_cancel := Some (cancellable_new_result env)\<rparr>\<rparr>;
                             w7 = emit [Dup_usb_fd] w6
                         in if dup_result env < 0 then g_assert_failed w7
                            else
                              (let usb_fd = dup_result env;
                                   w8 = emit [G_usb_device_close] w7;
                                   w9 = w8\<lparr>tdev := (tdev w8)\<lparr>send_msg := (send_msg (tdev w8))
                                          \<lparr>transfer_fd := usb_fd, size_msg := Sizeof_ipc_msg_init,
                                           type_msg := IPC_MSG_INIT, init_log_level := LOG_DEBUG,
                                           init_usb_bus := usb_bus env,
                                           init_usb_addr := usb_addr env\<rparr>\<rparr>\<rparr>
                               in (case send_ipc_msg (init_send_result env) w9 of
                                    (Some error, w10) \<Rightarrow>
                                      (let w11 = emit [Close_fd usb_fd] w10
                                       in if close_result env < 0 then g_assert_failed w11
                                          else emit [G_usb_device_open,
                                                     Fpi_device_open_complete (Some error)]
                                                 (dispose_dev k w11))
                                  | (None, w10) \<Rightarrow>
                                      (let w11 = emit [Close_fd usb_fd] w10
                                       in if close_result env < 0 then g_assert_failed w11
                                          else recv_ipc_msg
                                                 (emit [Log (Debug_initialized (host_id (tdev w11))
                                                          (init_usb_bus (send_msg (tdev w11)))
                                                          (init_usb_addr (send_msg (tdev w11))))]
                                                    w11)))))))))))"

text \<open>\<open>fpi_device_tudor_close\<close>; \<open>k\<close> answers \<open>kill_host_process\<close>, \<open>r\<close> answers
  \<open>send_ipc_msg\<close>.\<close>

definition fpi_device_tudor_close :: "gerror option \<Rightarrow> gerror option \<Rightarrow> world \<Rightarrow> world" where
  "fpi_device_tudor_close k r w =
     (if host_dead (tdev w) then
        emit [G_usb_device_open, Fpi_device_close_complete None] (dispose_dev k w)
      else
        let w1 = w\<lparr>tdev := (tdev w)\<lparr>in_shutdown := True\<rparr>\<rparr>;
            w2 = w1\<lparr>tdev := (tdev w1)\<lparr>send_msg := (send_msg (tdev w1))
                   \<lparr>size_msg := Sizeof_ipc_msg_type, type_msg := IPC_MSG_SHUTDOWN\<rparr>\<rparr>\<rparr>
        in case send_ipc_msg r w2 of
             (Some error, w3) \<Rightarrow>
               emit [G_usb_device_open, Fpi_device_close_complete (Some error)] (dispose_dev k w3)
           | (None, w3) \<Rightarrow> emit [Fpi_device_add_timeout] w3)"

subsection \<open>The event loop\<close>

text \<open>What can happen to a device: the caller invokes one of the two operations, the
  outstanding receive finishes, the process monitor reports an exit, the shutdown timeout
  fires. Each event carries the answers of the environment to the calls its handler makes.
  The receive callback runs only for an outstanding receive, which it consumes; exit
  reports and timeouts are delivered to their callbacks whenever they occur, and the
  callbacks themselves decide whether they act. Nothing runs after an abort.\<close>

datatype event =
    Call_open open_env
  | Call_close "gerror option" "gerror option"
  | Recv_complete "gerror option" "gerror + IPCMessageBuf"
  | Host_exit "gerror option" "32 word" int
  | Timeout_fired "gerror option"

fun step :: "event \<Rightarrow> world \<Rightarrow> world" where
  "step ev w =
     (if aborted w then w
      else case ev of
        Call_open env \<Rightarrow> fpi_device_tudor_open env w
      | Call_close k r \<Rightarrow> fpi_device_tudor_close k r w
      | Recv_complete k res \<Rightarrow>
          (if recv_pending w then open_recv_cb k res (w\<lparr>recv_pending := False\<rparr>) else w)
      | Host_exit k hid status \<Rightarrow> host_exit_cb k hid status w
      | Timeout_fired k \<Rightarrow> close_timeout_cb k w)"

definition run :: "event list \<Rightarrow> world \<Rightarrow> world" where
  "run evs w = fold step evs w"

fun is_call_open :: "event \<Rightarrow> bool" where
  "is_call_open (Call_open env) = True"
| "is_call_open ev = False"

fun is_call_close :: "event \<Rightarrow> bool" where
  "is_call_close (Call_close k r) = True"
| "is_call_close ev = False"


subsection \<open>Observations on a trace\<close>

text \<open>How often the disposal routine ran: it logs its last line once per run.\<close>

definition disposals :: "effect list \<Rightarrow> nat" where
  "disposals es = count_list es (Log Debug_disposed)"

fun open_completions :: "effect list \<Rightarrow> gerror option list" where
  "open_completions [] = []"
| "open_completions (Fpi_device_open_complete r # es) = r # open_completions es"
| "open_completions (e # es) = open_completions es"

fun close_completions :: "effect list \<Rightarrow> gerror option list" where
  "close_completions [] = []"
| "close_completions (Fpi_device_close_complete r # es) = r # close_completions es"
| "close_completions (e # es) = close_completions es"

fun msgs_freed :: "effect list \<Rightarrow> IPCMessageBuf list" where
  "msgs_freed [] = []"
| "msgs_freed (Ipc_msg_buf_free m # es) = m # msgs_freed es"
| "msgs_freed (e # es) = msgs_freed es"

fun objects_released :: "effect list \<Rightarrow> gobject list" where
  "objects_released [] = []"
| "objects_released (G_object_unref obj # es) = obj # objects_released es"
| "objects_released (e # es) = objects_released es"

fun msgs_sent :: "effect list \<Rightarrow> IPCMessageBuf list" where
  "msgs_sent [] = []"
| "msgs_sent (Send_ipc_msg m # es) = m # msgs_sent es"
| "msgs_sent (e # es) = msgs_sent es"

fun fds_closed :: "effect list \<Rightarrow> int list" where
  "fds_closed [] = []"
| "fds_closed (Close_fd fd # es) = fd # fds_closed es"
| "fds_closed (e # es) = fds_closed es"

fun is_completion :: "effect \<Rightarrow> bool" where
  "is_completion (Fpi_device_open_complete r) = True"
| "is_completion (Fpi_device_close_complete r) = True"
| "is_completion e = False"

text \<open>A teardown reopens the USB device exactly once and then completes the pending
  operation: one \<open>G_usb_device_open\<close> in the run, one completion, and the completion is the
  last call of the run (so the reopen comes before it).\<close>

definition reopened_once_then_completed :: "effect list \<Rightarrow> bool" where
  "reopened_once_then_completed es \<longleftrightarrow>
     count_list es G_usb_device_open = 1
     \<and> length (filter is_completion es) = 1
     \<and> es \<noteq> [] \<and> is_completion (last es)"

subsection \<open>The calls of the disposal routine and of the exit callback\<close>

text \<open>The calls that \<open>dispose_dev\<close> makes on a device \<open>d\<close> when the launcher answers
  \<open>k\<close> (lemma \<open>dispose_dev_trace\<close> below proves that these are the calls of the model), and
  the calls of \<open>host_exit_cb\<close> before its last conditional.\<close>

definition dispose_effects_of :: "gerror option \<Rightarrow> FpiDeviceTudor \<Rightarrow> effect list" where
  "dispose_effects_of k d =
     (if host_has_id d then
        Kill_host_process (host_id d) #
          (case k of None \<Rightarrow> [] | Some error \<Rightarrow> [Log (Warn_cleanup_error error)])
      else [])
     @ (case ipc_cancel d of None \<Rightarrow> [] | Some obj \<Rightarrow> [G_object_unref obj])
     @ (case ipc_socket d of None \<Rightarrow> [] | Some obj \<Rightarrow> [G_object_unref obj])
     @ (case dbus_con d of None \<Rightarrow> [] | Some obj \<Rightarrow> [G_object_unref obj])
     @ [Log Debug_disposed]"

definition host_exit_notes :: "int \<Rightarrow> FpiDeviceTudor \<Rightarrow> effect list" where
  "host_exit_notes status d =
     (if status \<noteq> 0 then [Log (Warn_host_died status)] else [])
     @ (case ipc_cancel d of None \<Rightarrow> []
        | Some c \<Rightarrow> [G_cancellable_cancel c, Log (Debug_cancelled_ipc (host_id d))])"

subsection \<open>How far an open gets\<close>

text \<open>The environment lets \<open>fpi_device_tudor_open\<close> reach the INIT send: the bus
  connection, the host process, the socket and the duplicated descriptor are all there.
  It reaches the asynchronous receive when the send succeeds as well and the duplicate is
  closed without error.\<close>

definition open_reaches_send :: "open_env \<Rightarrow> bool" where
  "open_reaches_send env \<longleftrightarrow>
     \<not> isl (bus_get_result env) \<and> \<not> isl (start_host_result env)
     \<and> \<not> isl (socket_new_result env) \<and> 0 \<le> dup_result env"

definition open_reaches_receive :: "open_env \<Rightarrow> bool" where
  "open_reaches_receive env \<longleftrightarrow>
     open_reaches_send env \<and> init_send_result env = None \<and> 0 \<le> close_result env"

text \<open>The buffer that \<open>fpi_device_tudor_open\<close> hands to \<open>send_ipc_msg\<close>.\<close>

definition init_msg :: "open_env \<Rightarrow> world \<Rightarrow> IPCMessageBuf" where
  "init_msg env w = (send_msg (tdev w))
      \<lparr>transfer_fd := dup_result env, size_msg := Sizeof_ipc_msg_init,
       type_msg := IPC_MSG_INIT, init_log_level := LOG_DEBUG,
       init_usb_bus := usb_bus env, init_usb_addr := usb_addr env\<rparr>"

subsection \<open>A concrete session\<close>

text \<open>A device that was never opened, an environment in which every call of an open
  succeeds and the launcher hands out host id 7, the session that results once the host
  has sent READY (\<open>opening7\<close> before the message, \<open>session7\<close> after it), and the same
  session after a close has sent SHUTDOWN (\<open>closing7\<close>).\<close>

definition idle_tdev :: FpiDeviceTudor where
  "idle_tdev =
     \<lparr>host_has_id = False, host_id = 0, host_dead = False, in_shutdown = False,
      ipc_cancel = None, ipc_socket = None, dbus_con = None,
      send_msg = \<lparr>transfer_fd = - 1, size_msg = Sizeof_unset, type_msg = IPC_MSG_OTHER 0,
                  init_log_level = LOG_LEVEL_OTHER 0, init_usb_bus = 0, init_usb_addr = 0\<rparr>\<rparr>"

definition idle_world :: world where
  "idle_world = \<lparr>tdev = idle_tdev, trace = [], recv_pending = False, aborted = False\<rparr>"

definition env7 :: open_env where
  "env7 = \<lparr>bus_get_result = Inr 1, start_host_result = Inr (4, 7), socket_new_result = Inr 2,
           cancellable_new_result = 3, dup_result = 5, usb_bus = 1, usb_addr = 2,
           init_send_result = None, close_result = 0, open_kill_result = None\<rparr>"

definition ready_msg :: IPCMessageBuf where
  "ready_msg = \<lparr>transfer_fd = - 1, size_msg = Sizeof_ipc_msg_type, type_msg = IPC_MSG_READY,
                init_log_level = LOG_LEVEL_OTHER 0, init_usb_bus = 0, init_usb_addr = 0\<rparr>"

definition shutdown_msg :: IPCMessageBuf where
  "shutdown_msg = ready_msg\<lparr>type_msg := IPC_MSG_SHUTDOWN\<rparr>"

text \<open>A second environment: the launcher hands out host id 9 and the INIT send fails.\<close>

definition env9 :: open_env where
  "env9 = env7\<lparr>start_host_result := Inr (4, 9), init_send_result := Some (GError_from_callee 1)\<rparr>"

text \<open>The same, and closing the duplicated descriptor fails as well.\<close>

definition env9_close_fails :: open_env where
  "env9_close_fails = env9\<lparr>close_result := - 1\<rparr>"

definition opening7 :: world where
  "opening7 = run [Call_open env7] idle_world"

definition session7 :: world where
  "session7 = run [Call_open env7, Recv_complete None (Inr ready_msg)] idle_world"

definition closing7 :: world where
  "closing7 = run [Call_close None None] session7"

text \<open>The open session after its host has died (exit status 1) and before any close.\<close>

definition dead7 :: world where
  "dead7 = run [Host_exit None 7 1] session7"

section \<open>Properties\<close>

subsection \<open>Observations distribute over traces\<close>

lemma disposals_Nil: "disposals [] = 0"
  by (simp add: disposals_def)

lemma disposals_Cons:
  "disposals (e # es) = (if e = Log Debug_disposed then 1 else 0) + disposals es"
  by (simp add: disposals_def)

lemma disposals_append: "disposals (xs @ ys) = disposals xs + disposals ys"
  by (induction xs) (simp_all add: disposals_def)

lemma open_completions_append:
  "open_completions (xs @ ys) = open_completions xs @ open_completions ys"
  by (induction xs rule: open_completions.induct) simp_all

lemma close_completions_append:
  "close_completions (xs @ ys) = close_completions xs @ close_completions ys"
  by (induction xs rule: close_completions.induct) simp_all

lemma msgs_freed_append: "msgs_freed (xs @ ys) = msgs_freed xs @ msgs_freed ys"
  by (induction xs rule: msgs_freed.induct) simp_all

lemma objects_released_append:
  "objects_released (xs @ ys) = objects_released xs @ objects_released ys"
  by (induction xs rule: objects_released.induct) simp_all

lemma msgs_sent_append: "msgs_sent (xs @ ys) = msgs_sent xs @ msgs_sent ys"
  by (induction xs rule: msgs_sent.induct) simp_all

lemma fds_closed_append: "fds_closed (xs @ ys) = fds_closed xs @ fds_closed ys"
  by (induction xs rule: fds_closed.induct) simp_all

lemmas obs_append = disposals_Nil disposals_Cons disposals_append open_completions_append
  close_completions_append msgs_freed_append msgs_sent_append fds_closed_append

lemma new_effects_append: "trace w' = trace w @ es \<Longrightarrow> new_effects w w' = es"
  by (simp add: new_effects_def)

subsection \<open>The disposal routine\<close>

lemma dispose_dev_fields:
  "tdev (dispose_dev k w) =
     (tdev w)\<lparr>in_shutdown := False, ipc_cancel := None, ipc_socket := None, dbus_con := None\<rparr>"
  by (simp add: dispose_dev_def kill_host_process_def g_clear_object_ipc_cancel_def
        g_clear_object_ipc_socket_def g_clear_object_dbus_con_def emit_def Let_def
      split: option.splits)

lemma dispose_dev_trace:
  "trace (dispose_dev k w) = trace w @ dispose_effects_of k (tdev w)"
  by (simp add: dispose_dev_def kill_host_process_def g_clear_object_ipc_cancel_def
        g_clear_object_ipc_socket_def g_clear_object_dbus_con_def emit_def Let_def
        dispose_effects_of_def
      split: option.splits)

lemma dispose_dev_rest:
  "recv_pending (dispose_dev k w) = recv_pending w" "aborted (dispose_dev k w) = aborted w"
  by (simp_all add: dispose_dev_def kill_host_process_def g_clear_object_ipc_cancel_def
        g_clear_object_ipc_socket_def g_clear_object_dbus_con_def emit_def Let_def
      split: option.splits)

lemma dispose_effects_obs:
  "disposals (dispose_effects_of k d) = 1"
  "open_completions (dispose_effects_of k d) = []"
  "close_completions (dispose_effects_of k d) = []"
  "msgs_freed (dispose_effects_of k d) = []"
  "msgs_sent (dispose_effects_of k d) = []"
  "fds_closed (dispose_effects_of k d) = []"
  "count_list (dispose_effects_of k d) G_usb_device_open = 0"
  "filter is_completion (dispose_effects_of k d) = []"
  by (simp_all add: dispose_effects_of_def disposals_def split: option.splits)

subsection \<open>The concrete session\<close>

lemmas model_defs = run_def fpi_device_tudor_open_def fpi_device_tudor_close_def
  open_recv_cb_def open_recv_cb_error_def host_exit_cb_def close_timeout_cb_def dispose_dev_def
  kill_host_process_def start_host_process_def send_ipc_msg_def recv_ipc_msg_def
  g_assert_failed_def g_clear_object_ipc_cancel_def g_clear_object_ipc_socket_def
  g_clear_object_dbus_con_def emit_def Let_def

lemmas example_defs = idle_tdev_def idle_world_def env7_def ready_msg_def

lemma opening7_state:
  "tdev opening7 =
     \<lparr>host_has_id = True, host_id = 7, host_dead = False, in_shutdown = False,
      ipc_cancel = Some 3, ipc_socket = Some 2, dbus_con = Some 1,
      send_msg = \<lparr>transfer_fd = 5, size_msg = Sizeof_ipc_msg_init, type_msg = IPC_MSG_INIT,
                  init_log_level = LOG_DEBUG, init_usb_bus = 1, init_usb_addr = 2\<rparr>\<rparr>"
  "recv_pending opening7"
  by (simp_all add: opening7_def model_defs example_defs)

lemma session7_state:
  "tdev session7 =
     \<lparr>host_has_id = True, host_id = 7, host_dead = False, in_shutdown = False,
      ipc_cancel = Some 3, ipc_socket = Some 2, dbus_con = Some 1,
      send_msg = \<lparr>transfer_fd = 5, size_msg = Sizeof_ipc_msg_init, type_msg = IPC_MSG_INIT,
                  init_log_level = LOG_DEBUG, init_usb_bus = 1, init_usb_addr = 2\<rparr>\<rparr>"
  "recv_pending session7 = False" "aborted session7 = False"
  "open_completions (trace session7) = [None]"
  "close_completions (trace session7) = []"
  "disposals (trace session7) = 0"
  by (simp_all add: session7_def model_defs example_defs disposals_def)

lemma closing7_state:
  "in_shutdown (tdev closing7)" "\<not> host_dead (tdev closing7)" "host_id (tdev closing7) = 7"
  "\<not> recv_pending closing7" "\<not> aborted closing7"
  "close_completions (trace closing7) = []"
  "disposals (trace closing7) = 0"
  "msgs_sent (new_effects session7 closing7) =
     [(send_msg (tdev session7))\<lparr>size_msg := Sizeof_ipc_msg_type, type_msg := IPC_MSG_SHUTDOWN\<rparr>]"
  "count_list (trace closing7) Fpi_device_add_timeout = 1"
  by (simp_all add: closing7_def session7_def model_defs example_defs disposals_def new_effects_def)

lemma closing7_tdev:
  "tdev closing7 =
     \<lparr>host_has_id = True, host_id = 7, host_dead = False, in_shutdown = True,
      ipc_cancel = Some 3, ipc_socket = Some 2, dbus_con = Some 1,
      send_msg = \<lparr>transfer_fd = 5, size_msg = Sizeof_ipc_msg_type, type_msg = IPC_MSG_SHUTDOWN,
                  init_log_level = LOG_DEBUG, init_usb_bus = 1, init_usb_addr = 2\<rparr>\<rparr>"
  by (simp add: closing7_def session7_def model_defs example_defs)

lemma dead7_state:
  "host_dead (tdev dead7)"
  "tdev dead7 =
     \<lparr>host_has_id = True, host_id = 7, host_dead = True, in_shutdown = False,
      ipc_cancel = Some 3, ipc_socket = Some 2, dbus_con = Some 1,
      send_msg = \<lparr>transfer_fd = 5, size_msg = Sizeof_ipc_msg_init, type_msg = IPC_MSG_INIT,
                  init_log_level = LOG_DEBUG, init_usb_bus = 1, init_usb_addr = 2\<rparr>\<rparr>"
  by (simp_all add: dead7_def session7_def model_defs example_defs)

lemma env7_reaches_send:
  "open_reaches_send env7" "dup_result env7 = 5"
  by (simp_all add: env7_def open_reaches_send_def)

lemma env9_reaches_send:
  "open_reaches_send env9" "init_send_result env9 = Some (GError_from_callee 1)"
  "0 \<le> close_result env9" "dup_result env9 = 5"
  by (simp_all add: env9_def env7_def open_reaches_send_def)

lemma shutdown_msg_type: "type_msg shutdown_msg = IPC_MSG_SHUTDOWN"
  by (simp add: shutdown_msg_def ready_msg_def)

subsection \<open>Disposal is idempotent and disarms the timeout\<close>

text \<open>The shutdown flag is set by \<open>fpi_device_tudor_close\<close> alone: no other event of the loop
  turns it on.\<close>

lemma open_keeps_in_shutdown:
  "in_shutdown (tdev (fpi_device_tudor_open env w)) \<Longrightarrow> in_shutdown (tdev w)"
  by (auto simp add: fpi_device_tudor_open_def start_host_process_def send_ipc_msg_def
        recv_ipc_msg_def g_assert_failed_def emit_def Let_def dispose_dev_fields
      split: sum.splits prod.splits option.splits if_splits)

lemma open_recv_cb_keeps_in_shutdown:
  "in_shutdown (tdev (open_recv_cb k res w)) \<Longrightarrow> in_shutdown (tdev w)"
  by (simp add: open_recv_cb_def open_recv_cb_error_def emit_def Let_def dispose_dev_fields
      split: sum.splits ipc_msg_type.splits option.splits)

lemma host_exit_cb_keeps_in_shutdown:
  "in_shutdown (tdev (host_exit_cb k hid status w)) \<Longrightarrow> in_shutdown (tdev w)"
  by (simp add: host_exit_cb_def emit_def Let_def dispose_dev_fields
      split: option.splits if_splits)

lemma step_keeps_not_in_shutdown:
  assumes "\<not> in_shutdown (tdev w)" "\<not> is_call_close ev"
  shows "\<not> in_shutdown (tdev (step ev w))"
proof (cases ev)
  case (Call_open env)
  then show ?thesis using assms open_keeps_in_shutdown [of env w] by auto
next
  case (Call_close k r)
  then show ?thesis using assms by simp
next
  case (Recv_complete k res)
  then show ?thesis
    using assms open_recv_cb_keeps_in_shutdown [of k res "w\<lparr>recv_pending := False\<rparr>"] by auto
next
  case (Host_exit k hid status)
  then show ?thesis using assms host_exit_cb_keeps_in_shutdown [of k hid status w] by auto
next
  case (Timeout_fired k)
  then show ?thesis using assms by (simp add: close_timeout_cb_def)
qed

lemma run_keeps_not_in_shutdown:
  assumes "\<not> in_shutdown (tdev w)" "\<forall>ev\<in>set evs. \<not> is_call_close ev"
  shows "\<not> in_shutdown (tdev (run evs w))"
  using assms
proof (induction evs arbitrary: w)
  case Nil
  then show ?case by (simp add: run_def)
next
  case (Cons ev evs)
  have "run (ev # evs) w = run evs (step ev w)" by (simp add: run_def)
  moreover have "\<not> in_shutdown (tdev (step ev w))"
    using Cons.prems by (intro step_keeps_not_in_shutdown) auto
  ultimately show ?case using Cons.IH [of "step ev w"] Cons.prems(2) by simp
qed

text \<open>
  C10. After the disposal routine returns, \<open>in_shutdown\<close> is false and the references
  \<open>ipc_cancel\<close>, \<open>ipc_socket\<close> and \<open>dbus_con\<close> are cleared. A shutdown-timeout callback
  delivered in that state leaves the whole world as it is: the session is unchanged and
  nothing is appended to the trace, so no operation is completed. The same holds for a
  timeout delivered later, after any events that are not a new call of close (which is the
  one place that sets \<open>in_shutdown\<close> again).
\<close>

theorem C10_after_disposal_timeout_is_noop:
  "in_shutdown (tdev (dispose_dev k w)) = False
   \<and> ipc_cancel (tdev (dispose_dev k w)) = None
   \<and> ipc_socket (tdev (dispose_dev k w)) = None
   \<and> dbus_con (tdev (dispose_dev k w)) = None
   \<and> close_timeout_cb k' (dispose_dev k w) = dispose_dev k w
   \<and> new_effects (dispose_dev k w) (close_timeout_cb k' (dispose_dev k w)) = []
   \<and> ((\<forall>ev\<in>set evs. \<not> is_call_close ev) \<longrightarrow>
        in_shutdown (tdev (run evs (dispose_dev k w))) = False
        \<and> close_timeout_cb k' (run evs (dispose_dev k w)) = run evs (dispose_dev k w))"
proof -
  have d: "\<not> in_shutdown (tdev (dispose_dev k w))" by (simp add: dispose_dev_fields)
  have "\<not> in_shutdown (tdev (run evs (dispose_dev k w)))"
    if "\<forall>ev\<in>set evs. \<not> is_call_close ev"
    using run_keeps_not_in_shutdown [OF d that] .
  then show ?thesis
    by (simp add: dispose_dev_fields close_timeout_cb_def new_effects_def)
qed

theorem C10_witness:
  "in_shutdown (tdev closing7)
   \<and> in_shutdown (tdev (dispose_dev None closing7)) = False
   \<and> close_timeout_cb None (dispose_dev None closing7) = dispose_dev None closing7
   \<and> \<not> is_call_close (Host_exit None 7 0) \<and> \<not> is_call_close (Call_open env7)
   \<and> \<not> is_call_close (Recv_complete None (Inr shutdown_msg))
   \<and> close_timeout_cb None
        (run [Host_exit None 7 0, Call_open env7, Recv_complete None (Inr shutdown_msg)]
           (dispose_dev None closing7))
       = run [Host_exit None 7 0, Call_open env7, Recv_complete None (Inr shutdown_msg)]
           (dispose_dev None closing7)"
  using C10_after_disposal_timeout_is_noop [of None closing7 None
      "[Host_exit None 7 0, Call_open env7, Recv_complete None (Inr shutdown_msg)]"]
  by (simp add: closing7_state)

text \<open>
  C9. Running the disposal routine twice in succession is safe. The second run leaves the
  session exactly as the first run left it, releases no object (the three references are
  already absent), and its only calls are the best-effort \<open>kill_host_process\<close> when a host id
  is registered (with the warning when the launcher reports an error) and the closing debug
  line.
\<close>

theorem C9_dispose_twice:
  "tdev (dispose_dev k2 (dispose_dev k1 w)) = tdev (dispose_dev k1 w)
   \<and> recv_pending (dispose_dev k2 (dispose_dev k1 w)) = recv_pending (dispose_dev k1 w)
   \<and> aborted (dispose_dev k2 (dispose_dev k1 w)) = aborted (dispose_dev k1 w)
   \<and> objects_released (new_effects (dispose_dev k1 w) (dispose_dev k2 (dispose_dev k1 w))) = []
   \<and> new_effects (dispose_dev k1 w) (dispose_dev k2 (dispose_dev k1 w)) =
       (if host_has_id (tdev w) then
          Kill_host_process (host_id (tdev w)) #
            (case k2 of None \<Rightarrow> [] | Some error \<Rightarrow> [Log (Warn_cleanup_error error)])
        else [])
       @ [Log Debug_disposed]"
proof -
  let ?w1 = "dispose_dev k1 w"
  have e: "new_effects ?w1 (dispose_dev k2 ?w1) =
       (if host_has_id (tdev w) then
          Kill_host_process (host_id (tdev w)) #
            (case k2 of None \<Rightarrow> [] | Some error \<Rightarrow> [Log (Warn_cleanup_error error)])
        else [])
       @ [Log Debug_disposed]"
    by (rule new_effects_append)
       (simp add: dispose_dev_trace [of k2 ?w1] dispose_dev_fields dispose_effects_of_def)
  show ?thesis
    by (simp add: e dispose_dev_fields dispose_dev_rest split: option.splits)
qed

theorem C9_witness:
  "tdev (dispose_dev None (dispose_dev None session7)) = tdev (dispose_dev None session7)
   \<and> objects_released
        (new_effects (dispose_dev None session7) (dispose_dev None (dispose_dev None session7)))
       = []
   \<and> new_effects (dispose_dev None session7) (dispose_dev None (dispose_dev None session7))
       = [Kill_host_process 7, Log Debug_disposed]"
  using C9_dispose_twice [of None None session7] by (simp add: session7_state)

subsection \<open>The host-exit callback\<close>

lemma host_exit_cb_ignored:
  "host_dead (tdev w) \<or> host_id (tdev w) \<noteq> hid \<Longrightarrow> host_exit_cb k hid status w = w"
  by (simp add: host_exit_cb_def)

lemma host_exit_cb_idle:
  assumes "\<not> host_dead (tdev w)" "host_id (tdev w) = hid" "\<not> in_shutdown (tdev w)"
  shows "tdev (host_exit_cb k hid status w) = (tdev w)\<lparr>host_dead := True\<rparr>"
    and "trace (host_exit_cb k hid status w) = trace w @ host_exit_notes status (tdev w)"
    and "recv_pending (host_exit_cb k hid status w) = recv_pending w"
    and "aborted (host_exit_cb k hid status w) = aborted w"
  using assms
  by (simp_all add: host_exit_cb_def host_exit_notes_def emit_def Let_def split: option.splits)

lemma host_exit_cb_shutdown:
  assumes "\<not> host_dead (tdev w)" "host_id (tdev w) = hid" "in_shutdown (tdev w)"
  shows "tdev (host_exit_cb k hid status w) =
           (tdev w)\<lparr>host_dead := True, in_shutdown := False, ipc_cancel := None,
                    ipc_socket := None, dbus_con := None\<rparr>"
    and "trace (host_exit_cb k hid status w) =
           trace w @ host_exit_notes status (tdev w)
             @ dispose_effects_of k (tdev w)
             @ [G_usb_device_open, Fpi_device_close_complete None]"
    and "recv_pending (host_exit_cb k hid status w) = recv_pending w"
    and "aborted (host_exit_cb k hid status w) = aborted w"
  using assms
  by (simp_all add: host_exit_cb_def host_exit_notes_def emit_def Let_def dispose_dev_fields
        dispose_dev_trace dispose_dev_rest dispose_effects_of_def split: option.splits)

lemma host_exit_notes_obs:
  "disposals (host_exit_notes status d) = 0"
  "open_completions (host_exit_notes status d) = []"
  "close_completions (host_exit_notes status d) = []"
  "msgs_freed (host_exit_notes status d) = []"
  "msgs_sent (host_exit_notes status d) = []"
  "count_list (host_exit_notes status d) G_usb_device_open = 0"
  "filter is_completion (host_exit_notes status d) = []"
  by (simp_all add: host_exit_notes_def disposals_def split: option.splits)

text \<open>
  C5. The host-exit callback does nothing at all when the host is already marked dead or the
  reported id is not the id of the session. Otherwise it marks the host dead and cancels the
  IPC cancellable if there is one; when \<open>in_shutdown\<close> is set it then runs the disposal
  routine, reopens the USB device and completes \<open>close()\<close> with success, and when
  \<open>in_shutdown\<close> is not set it does nothing more: no disposal, no completion, and
  \<open>host_dead\<close> is the only field that changes.
\<close>

theorem C5_host_exit_cb_acts:
  "(if host_dead (tdev w) \<or> host_id (tdev w) \<noteq> hid then host_exit_cb k hid status w = w
    else
      host_dead (tdev (host_exit_cb k hid status w))
      \<and> new_effects w (host_exit_cb k hid status w) =
          (if status \<noteq> 0 then [Log (Warn_host_died status)] else [])
          @ (case ipc_cancel (tdev w) of None \<Rightarrow> []
             | Some c \<Rightarrow> [G_cancellable_cancel c, Log (Debug_cancelled_ipc hid)])
          @ (if in_shutdown (tdev w) then
               dispose_effects_of k (tdev w) @ [G_usb_device_open, Fpi_device_close_complete None]
             else [])
      \<and> tdev (host_exit_cb k hid status w) =
          (if in_shutdown (tdev w) then
             (tdev w)\<lparr>host_dead := True, in_shutdown := False, ipc_cancel := None,
                      ipc_socket := None, dbus_con := None\<rparr>
           else (tdev w)\<lparr>host_dead := True\<rparr>)
      \<and> disposals (new_effects w (host_exit_cb k hid status w)) =
          (if in_shutdown (tdev w) then 1 else 0)
      \<and> close_completions (new_effects w (host_exit_cb k hid status w)) =
          (if in_shutdown (tdev w) then [None] else [])
      \<and> open_completions (new_effects w (host_exit_cb k hid status w)) = [])"
proof (cases "host_dead (tdev w) \<or> host_id (tdev w) \<noteq> hid")
  case True
  then show ?thesis by (simp add: host_exit_cb_ignored)
next
  case acts: False
  then have a: "\<not> host_dead (tdev w)" "host_id (tdev w) = hid" by auto
  let ?w' = "host_exit_cb k hid status w"
  have n: "host_exit_notes status (tdev w) =
        (if status \<noteq> 0 then [Log (Warn_host_died status)] else [])
        @ (case ipc_cancel (tdev w) of None \<Rightarrow> []
           | Some c \<Rightarrow> [G_cancellable_cancel c, Log (Debug_cancelled_ipc hid)])"
    using a by (simp add: host_exit_notes_def split: option.splits)
  have c: "host_dead (tdev ?w')
      \<and> new_effects w ?w' =
          (if status \<noteq> 0 then [Log (Warn_host_died status)] else [])
          @ (case ipc_cancel (tdev w) of None \<Rightarrow> []
             | Some c \<Rightarrow> [G_cancellable_cancel c, Log (Debug_cancelled_ipc hid)])
          @ (if in_shutdown (tdev w) then
               dispose_effects_of k (tdev w) @ [G_usb_device_open, Fpi_device_close_complete None]
             else [])
      \<and> tdev ?w' =
          (if in_shutdown (tdev w) then
             (tdev w)\<lparr>host_dead := True, in_shutdown := False, ipc_cancel := None,
                      ipc_socket := None, dbus_con := None\<rparr>
           else (tdev w)\<lparr>host_dead := True\<rparr>)
      \<and> disposals (new_effects w ?w') = (if in_shutdown (tdev w) then 1 else 0)
      \<and> close_completions (new_effects w ?w') = (if in_shutdown (tdev w) then [None] else [])
      \<and> open_completions (new_effects w ?w') = []"
  proof (cases "in_shutdown (tdev w)")
    case True
    note h = host_exit_cb_shutdown [OF a True, of k status]
    have e: "new_effects w ?w' =
        host_exit_notes status (tdev w) @ dispose_effects_of k (tdev w)
          @ [G_usb_device_open, Fpi_device_close_complete None]"
      by (rule new_effects_append) (simp add: h(2))
    have o: "disposals (new_effects w ?w') = 1"
      "close_completions (new_effects w ?w') = [None]"
      "open_completions (new_effects w ?w') = []"
      by (simp_all add: e obs_append dispose_effects_obs host_exit_notes_obs)
    have d: "host_dead (tdev ?w')" by (simp add: h(1))
    from e have e': "new_effects w ?w' =
          (if status \<noteq> 0 then [Log (Warn_host_died status)] else [])
          @ (case ipc_cancel (tdev w) of None \<Rightarrow> []
             | Some c \<Rightarrow> [G_cancellable_cancel c, Log (Debug_cancelled_ipc hid)])
          @ dispose_effects_of k (tdev w) @ [G_usb_device_open, Fpi_device_close_complete None]"
      unfolding n by simp
    show ?thesis unfolding if_P [OF True] using d e' h(1) o by blast
  next
    case False
    note h = host_exit_cb_idle [OF a False, of k status]
    have e: "new_effects w ?w' = host_exit_notes status (tdev w)"
      by (rule new_effects_append) (simp add: h(2))
    have o: "disposals (new_effects w ?w') = 0"
      "close_completions (new_effects w ?w') = []"
      "open_completions (new_effects w ?w') = []"
      by (simp_all add: e obs_append host_exit_notes_obs)
    have d: "host_dead (tdev ?w')" by (simp add: h(1))
    from e have e': "new_effects w ?w' =
          (if status \<noteq> 0 then [Log (Warn_host_died status)] else [])
          @ (case ipc_cancel (tdev w) of None \<Rightarrow> []
             | Some c \<Rightarrow> [G_cancellable_cancel c, Log (Debug_cancelled_ipc hid)])
          @ []"
      unfolding n by simp
    show ?thesis unfolding if_not_P [OF False] using d e' h(1) o by blast
  qed
  show ?thesis unfolding if_not_P [OF acts] by (rule c)
qed

theorem C5_witness:
  "host_exit_cb None 8 0 closing7 = closing7
   \<and> host_dead (tdev (host_exit_cb None 7 0 closing7))
   \<and> close_completions (new_effects closing7 (host_exit_cb None 7 0 closing7)) = [None]
   \<and> disposals (new_effects closing7 (host_exit_cb None 7 0 closing7)) = 1
   \<and> host_dead (tdev (host_exit_cb None 7 0 session7))
   \<and> new_effects session7 (host_exit_cb None 7 0 session7) =
       [G_cancellable_cancel 3, Log (Debug_cancelled_ipc 7)]
   \<and> close_completions (new_effects session7 (host_exit_cb None 7 0 session7)) = []
   \<and> disposals (new_effects session7 (host_exit_cb None 7 0 session7)) = 0"
  using C5_host_exit_cb_acts [where w = closing7 and hid = 8 and k = None and status = 0]
    C5_host_exit_cb_acts [where w = closing7 and hid = 7 and k = None and status = 0]
    C5_host_exit_cb_acts [where w = session7 and hid = 7 and k = None and status = 0]
  by (simp add: closing7_tdev session7_state dispose_effects_of_def disposals_def)

subsection \<open>Closing: host death and timeout\<close>

lemma close_timeout_cb_shutdown:
  assumes "in_shutdown (tdev w)"
  shows "tdev (close_timeout_cb k w) =
           (tdev w)\<lparr>in_shutdown := False, ipc_cancel := None, ipc_socket := None, dbus_con := None\<rparr>"
    and "trace (close_timeout_cb k w) =
           trace w @ Log Warn_shutdown_timeout # dispose_effects_of k (tdev w)
             @ [G_usb_device_open, Fpi_device_close_complete None]"
    and "recv_pending (close_timeout_cb k w) = recv_pending w"
    and "aborted (close_timeout_cb k w) = aborted w"
  using assms
  by (simp_all add: close_timeout_cb_def emit_def dispose_dev_fields dispose_dev_trace
        dispose_dev_rest)







text \<open>
  C7. A \<open>close()\<close> invoked while \<open>host_dead\<close> is set sends no message, runs the disposal
  routine, reopens the USB device and completes \<open>close()\<close> with success before it returns;
  it arms no timeout.
\<close>

theorem C7_close_when_host_dead:
  assumes "host_dead (tdev w)"
  shows "new_effects w (fpi_device_tudor_close k r w) =
           dispose_effects_of k (tdev w) @ [G_usb_device_open, Fpi_device_close_complete None]
       \<and> msgs_sent (new_effects w (fpi_device_tudor_close k r w)) = []
       \<and> disposals (new_effects w (fpi_device_tudor_close k r w)) = 1
       \<and> count_list (new_effects w (fpi_device_tudor_close k r w)) G_usb_device_open = 1
       \<and> close_completions (new_effects w (fpi_device_tudor_close k r w)) = [None]
       \<and> count_list (new_effects w (fpi_device_tudor_close k r w)) Fpi_device_add_timeout = 0
       \<and> tdev (fpi_device_tudor_close k r w) =
           (tdev w)\<lparr>in_shutdown := False, ipc_cancel := None, ipc_socket := None,
                    dbus_con := None\<rparr>"
proof -
  have e: "new_effects w (fpi_device_tudor_close k r w) =
           dispose_effects_of k (tdev w) @ [G_usb_device_open, Fpi_device_close_complete None]"
    using assms
    by (intro new_effects_append) (simp add: fpi_device_tudor_close_def emit_def dispose_dev_trace)
  have t: "count_list (dispose_effects_of k (tdev w)) Fpi_device_add_timeout = 0"
    by (simp add: dispose_effects_of_def split: option.splits)
  have d: "tdev (fpi_device_tudor_close k r w) =
           (tdev w)\<lparr>in_shutdown := False, ipc_cancel := None, ipc_socket := None,
                    dbus_con := None\<rparr>"
    using assms by (simp add: fpi_device_tudor_close_def emit_def dispose_dev_fields)
  show ?thesis
    by (simp add: e d t obs_append dispose_effects_obs)
qed

theorem C7_witness:
  "host_dead (tdev dead7)
   \<and> msgs_sent (new_effects dead7 (fpi_device_tudor_close None None dead7)) = []
   \<and> disposals (new_effects dead7 (fpi_device_tudor_close None None dead7)) = 1
   \<and> count_list (new_effects dead7 (fpi_device_tudor_close None None dead7))
        G_usb_device_open = 1
   \<and> close_completions (new_effects dead7 (fpi_device_tudor_close None None dead7)) = [None]
   \<and> count_list (new_effects dead7 (fpi_device_tudor_close None None dead7))
        Fpi_device_add_timeout = 0"
  using C7_close_when_host_dead [OF dead7_state(1), of None None]
  by (simp add: dead7_state dispose_effects_of_def disposals_def)

subsection \<open>Opening\<close>

lemma open_send_trace:
  assumes "bus_get_result env = Inr con" "start_host_result env = Inr (sock_fd, hid)"
    "socket_new_result env = Inr sock" "0 \<le> dup_result env"
  shows "trace (fpi_device_tudor_open env w) =
     trace w @
     [G_bus_get_sync, Register_host_process_monitor, Start_host_process, Log (Info_started hid),
      G_socket_new_from_fd sock_fd, G_socket_set_timeout sock, G_cancellable_new, Dup_usb_fd,
      G_usb_device_close, Send_ipc_msg (init_msg env w), Close_fd (dup_result env)]
     @ (if close_result env < 0 then [Assertion_failed]
        else case init_send_result env of
          None \<Rightarrow> [Log (Debug_initialized hid (usb_bus env) (usb_addr env)), Recv_ipc_msg]
        | Some error \<Rightarrow>
            [Kill_host_process hid]
            @ (case open_kill_result env of None \<Rightarrow> []
               | Some ke \<Rightarrow> [Log (Warn_cleanup_error ke)])
            @ [G_object_unref (cancellable_new_result env), G_object_unref sock,
               G_object_unref con, Log Debug_disposed, G_usb_device_open,
               Fpi_device_open_complete (Some error)])"
  using assms
  by (simp add: fpi_device_tudor_open_def start_host_process_def send_ipc_msg_def
        recv_ipc_msg_def g_assert_failed_def emit_def Let_def dispose_dev_trace
        dispose_effects_of_def init_msg_def split: option.splits)

lemma open_receive_rest:
  assumes "bus_get_result env = Inr con" "start_host_result env = Inr (sock_fd, hid)"
    "socket_new_result env = Inr sock" "0 \<le> dup_result env"
    "init_send_result env = None" "0 \<le> close_result env"
  shows "recv_pending (fpi_device_tudor_open env w)"
    and "aborted (fpi_device_tudor_open env w) = aborted w"
  using assms
  by (simp_all add: fpi_device_tudor_open_def start_host_process_def send_ipc_msg_def
        recv_ipc_msg_def emit_def Let_def)

lemma open_reaches_sendE:
  assumes "open_reaches_send env"
  obtains con sock_fd hid sock where "bus_get_result env = Inr con"
    "start_host_result env = Inr (sock_fd, hid)" "socket_new_result env = Inr sock"
    "0 \<le> dup_result env"
proof -
  from assms obtain con where 1: "bus_get_result env = Inr con"
    by (cases "bus_get_result env") (auto simp: open_reaches_send_def)
  from assms obtain p where "start_host_result env = Inr p"
    by (cases "start_host_result env") (auto simp: open_reaches_send_def)
  then obtain sock_fd hid where 2: "start_host_result env = Inr (sock_fd, hid)"
    by (cases p) auto
  from assms obtain sock where 3: "socket_new_result env = Inr sock"
    by (cases "socket_new_result env") (auto simp: open_reaches_send_def)
  from assms have 4: "0 \<le> dup_result env" by (simp add: open_reaches_send_def)
  from 1 2 3 4 that show thesis by blast
qed

lemma open_recv_cb_ready:
  assumes "type_msg msg = IPC_MSG_READY"
  shows "trace (open_recv_cb k (Inr msg) w) =
           trace w @ [Log (Info_ready (host_id (tdev w))), Fpi_device_open_complete None,
                      Ipc_msg_buf_free msg]"
    and "tdev (open_recv_cb k (Inr msg) w) = tdev w"
    and "recv_pending (open_recv_cb k (Inr msg) w) = recv_pending w"
    and "aborted (open_recv_cb k (Inr msg) w) = aborted w"
  using assms by (simp_all add: open_recv_cb_def emit_def)

lemma open_recv_cb_error_trace:
  "trace (open_recv_cb_error k m error w) =
     trace w @ (case m of None \<Rightarrow> [] | Some msg \<Rightarrow> [Ipc_msg_buf_free msg])
       @ G_usb_device_open # dispose_effects_of k (tdev w)
       @ [Fpi_device_open_complete (Some error)]"
  "tdev (open_recv_cb_error k m error w) =
     (tdev w)\<lparr>in_shutdown := False, ipc_cancel := None, ipc_socket := None, dbus_con := None\<rparr>"
  by (simp_all add: open_recv_cb_error_def emit_def Let_def dispose_dev_trace dispose_dev_fields
      split: option.splits)

lemma open_recv_cb_not_ready:
  assumes "type_msg msg \<noteq> IPC_MSG_READY"
  shows "open_recv_cb k (Inr msg) w =
           open_recv_cb_error k (Some msg) (FP_DEVICE_ERROR_PROTO (type_msg msg)) w"
  using assms by (cases "type_msg msg") (simp_all add: open_recv_cb_def)

lemma close_obs:
  "open_completions (trace (fpi_device_tudor_close k r w)) = open_completions (trace w)"
  "msgs_freed (trace (fpi_device_tudor_close k r w)) = msgs_freed (trace w)"
  "recv_pending (fpi_device_tudor_close k r w) = recv_pending w"
  by (simp_all add: fpi_device_tudor_close_def send_ipc_msg_def emit_def Let_def
        dispose_dev_trace dispose_dev_rest obs_append dispose_effects_obs split: option.splits)

lemma host_exit_obs:
  "open_completions (trace (host_exit_cb k hid status w)) = open_completions (trace w)"
  "msgs_freed (trace (host_exit_cb k hid status w)) = msgs_freed (trace w)"
  "recv_pending (host_exit_cb k hid status w) = recv_pending w"
  by (simp_all add: host_exit_cb_def emit_def Let_def
        dispose_dev_trace dispose_dev_rest obs_append dispose_effects_obs split: option.splits)

lemma close_timeout_obs:
  "open_completions (trace (close_timeout_cb k w)) = open_completions (trace w)"
  "msgs_freed (trace (close_timeout_cb k w)) = msgs_freed (trace w)"
  "recv_pending (close_timeout_cb k w) = recv_pending w"
  by (simp_all add: close_timeout_cb_def emit_def Let_def
        dispose_dev_trace dispose_dev_rest obs_append dispose_effects_obs split: option.splits)

lemma step_after_open:
  assumes "\<not> recv_pending w" "\<not> is_call_open ev"
  shows "\<not> recv_pending (step ev w)
       \<and> open_completions (trace (step ev w)) = open_completions (trace w)
       \<and> msgs_freed (trace (step ev w)) = msgs_freed (trace w)"
  using assms by (cases ev) (simp_all add: close_obs host_exit_obs close_timeout_obs)

lemma run_after_open:
  assumes "\<not> recv_pending w" "\<forall>ev\<in>set evs. \<not> is_call_open ev"
  shows "open_completions (trace (run evs w)) = open_completions (trace w)
       \<and> msgs_freed (trace (run evs w)) = msgs_freed (trace w)"
  using assms
proof (induction evs arbitrary: w)
  case Nil
  then show ?case by (simp add: run_def)
next
  case (Cons ev evs)
  have ev: "\<not> is_call_open ev" and evs: "\<forall>e\<in>set evs. \<not> is_call_open e"
    using Cons.prems(2) by auto
  note q = step_after_open [OF Cons.prems(1) ev]
  have "run (ev # evs) w = run evs (step ev w)" by (simp add: run_def)
  with Cons.IH [of "step ev w"] q evs show ?case by simp
qed

text \<open>
  C2. In every run of \<open>open()\<close> that reaches the asynchronous receive and whose first
  inbound message is READY, that one message is consumed and \<open>open()\<close> is completed exactly
  once, with success. No later event completes it again: not a further message of the host,
  not an exit report, not a timeout, not a call of close.
\<close>

theorem C2_open_completes_once:
  assumes "open_reaches_receive env" "type_msg msg = IPC_MSG_READY" "\<not> aborted w"
    and "\<forall>ev\<in>set evs. \<not> is_call_open ev"
  shows "open_completions (trace (run (Call_open env # Recv_complete k (Inr msg) # evs) w))
           = open_completions (trace w) @ [None]
       \<and> msgs_freed (trace (run (Call_open env # Recv_complete k (Inr msg) # evs) w))
           = msgs_freed (trace w) @ [msg]"
proof -
  from assms(1) have s: "open_reaches_send env" and i: "init_send_result env = None"
    and c: "0 \<le> close_result env" by (simp_all add: open_reaches_receive_def)
  from s obtain con sock_fd hid sock where e: "bus_get_result env = Inr con"
    "start_host_result env = Inr (sock_fd, hid)" "socket_new_result env = Inr sock"
    "0 \<le> dup_result env" by (rule open_reaches_sendE)
  let ?w1 = "fpi_device_tudor_open env w"
  let ?w2 = "open_recv_cb k (Inr msg) (?w1\<lparr>recv_pending := False\<rparr>)"
  note t1 = open_send_trace [OF e, of w] and r1 = open_receive_rest [OF e i c, of w]
  note t2 = open_recv_cb_ready [OF assms(2), of k "?w1\<lparr>recv_pending := False\<rparr>"]
  have r: "run (Call_open env # Recv_complete k (Inr msg) # evs) w = run evs ?w2"
    using assms(3) r1 by (simp add: run_def)
  have p: "\<not> recv_pending ?w2" by (simp add: t2(3))
  have o: "open_completions (trace ?w2) = open_completions (trace w) @ [None]"
    using c i by (simp add: t2(1) t1 obs_append)
  have f: "msgs_freed (trace ?w2) = msgs_freed (trace w) @ [msg]"
    using c i by (simp add: t2(1) t1 obs_append)
  from run_after_open [OF p assms(4)] o f r show ?thesis by simp
qed

theorem C2_witness:
  "open_reaches_receive env7 \<and> type_msg ready_msg = IPC_MSG_READY \<and> \<not> aborted idle_world
   \<and> \<not> is_call_open (Recv_complete None (Inr ready_msg))
   \<and> \<not> is_call_open (Host_exit None 7 1) \<and> \<not> is_call_open (Call_close None None)
   \<and> \<not> is_call_open (Timeout_fired None)
   \<and> open_completions (trace (run (Call_open env7 # Recv_complete None (Inr ready_msg) #
        [Recv_complete None (Inr ready_msg), Host_exit None 7 1, Call_close None None,
         Timeout_fired None]) idle_world)) = [None]
   \<and> msgs_freed (trace (run (Call_open env7 # Recv_complete None (Inr ready_msg) #
        [Recv_complete None (Inr ready_msg), Host_exit None 7 1, Call_close None None,
         Timeout_fired None]) idle_world)) = [ready_msg]"
proof -
  have h1: "open_reaches_receive env7"
    by (simp add: open_reaches_receive_def open_reaches_send_def env7_def)
  have h2: "type_msg ready_msg = IPC_MSG_READY" by (simp add: ready_msg_def)
  have h3: "\<not> aborted idle_world" by (simp add: idle_world_def)
  have h4: "\<forall>ev\<in>set [Recv_complete None (Inr ready_msg), Host_exit None 7 1,
                      Call_close None None, Timeout_fired None]. \<not> is_call_open ev"
    by simp
  have t: "trace idle_world = []" by (simp add: idle_world_def)
  from C2_open_completes_once [OF h1 h2 h3 h4, of None]
  show ?thesis using h1 h2 h3 h4 by (simp add: t)
qed

text \<open>
  C3. When the asynchronous receive of \<open>open()\<close> yields a message whose tag is not READY,
  \<open>open_recv_cb\<close> frees the message, reopens the USB device once, runs the disposal routine
  once (which calls \<open>kill_host_process\<close> exactly when a host id is registered) and completes
  \<open>open()\<close> with the protocol error that names the tag.
\<close>

theorem C3_not_ready_fails_open:
  assumes "type_msg msg \<noteq> IPC_MSG_READY"
  shows "new_effects w (open_recv_cb k (Inr msg) w) =
           [Ipc_msg_buf_free msg, G_usb_device_open]
           @ dispose_effects_of k (tdev w)
           @ [Fpi_device_open_complete (Some (FP_DEVICE_ERROR_PROTO (type_msg msg)))]
       \<and> open_completions (new_effects w (open_recv_cb k (Inr msg) w)) =
           [Some (FP_DEVICE_ERROR_PROTO (type_msg msg))]
       \<and> count_list (new_effects w (open_recv_cb k (Inr msg) w)) G_usb_device_open = 1
       \<and> disposals (new_effects w (open_recv_cb k (Inr msg) w)) = 1
       \<and> count_list (new_effects w (open_recv_cb k (Inr msg) w))
            (Kill_host_process (host_id (tdev w))) = (if host_has_id (tdev w) then 1 else 0)
       \<and> tdev (open_recv_cb k (Inr msg) w) =
           (tdev w)\<lparr>in_shutdown := False, ipc_cancel := None, ipc_socket := None,
                    dbus_con := None\<rparr>"
proof -
  have e: "new_effects w (open_recv_cb k (Inr msg) w) =
           [Ipc_msg_buf_free msg, G_usb_device_open]
           @ dispose_effects_of k (tdev w)
           @ [Fpi_device_open_complete (Some (FP_DEVICE_ERROR_PROTO (type_msg msg)))]"
    by (rule new_effects_append)
       (simp add: open_recv_cb_not_ready [OF assms] open_recv_cb_error_trace)
  have k: "count_list (dispose_effects_of k (tdev w)) (Kill_host_process (host_id (tdev w)))
             = (if host_has_id (tdev w) then 1 else 0)"
    by (simp add: dispose_effects_of_def split: option.splits)
  have d: "tdev (open_recv_cb k (Inr msg) w) =
           (tdev w)\<lparr>in_shutdown := False, ipc_cancel := None, ipc_socket := None,
                    dbus_con := None\<rparr>"
    by (simp add: open_recv_cb_not_ready [OF assms] open_recv_cb_error_trace(2))
  show ?thesis
    by (simp add: e d k obs_append dispose_effects_obs)
qed

theorem C3_witness:
  "type_msg shutdown_msg \<noteq> IPC_MSG_READY
   \<and> open_completions (new_effects opening7 (open_recv_cb None (Inr shutdown_msg) opening7)) =
       [Some (FP_DEVICE_ERROR_PROTO IPC_MSG_SHUTDOWN)]
   \<and> count_list (new_effects opening7 (open_recv_cb None (Inr shutdown_msg) opening7))
        G_usb_device_open = 1
   \<and> disposals (new_effects opening7 (open_recv_cb None (Inr shutdown_msg) opening7)) = 1
   \<and> count_list (new_effects opening7 (open_recv_cb None (Inr shutdown_msg) opening7))
        (Kill_host_process 7) = 1"
proof -
  have h: "type_msg shutdown_msg \<noteq> IPC_MSG_READY" by (simp add: shutdown_msg_type)
  from C3_not_ready_fails_open [OF h, of opening7 None]
  show ?thesis using h
    by (simp add: opening7_state shutdown_msg_type dispose_effects_of_def disposals_def)
qed

text \<open>
  C8. Whenever \<open>open()\<close> reaches the INIT send, the descriptor duplicated from the USB
  device is the one attached to the INIT message, and it is closed exactly once, directly
  after the send, whether the send succeeds or fails; no other descriptor is closed.
\<close>

theorem C8_usb_fd_closed_once:
  assumes "open_reaches_send env"
  shows "fds_closed (new_effects w (fpi_device_tudor_open env w)) = [dup_result env]
       \<and> msgs_sent (new_effects w (fpi_device_tudor_open env w)) = [init_msg env w]
       \<and> transfer_fd (init_msg env w) = dup_result env
       \<and> (\<exists>pre post. new_effects w (fpi_device_tudor_open env w) =
             pre @ [Send_ipc_msg (init_msg env w), Close_fd (dup_result env)] @ post
             \<and> fds_closed pre = [] \<and> fds_closed post = [])"
proof -
  from assms obtain con sock_fd hid sock where e: "bus_get_result env = Inr con"
    "start_host_result env = Inr (sock_fd, hid)" "socket_new_result env = Inr sock"
    "0 \<le> dup_result env" by (rule open_reaches_sendE)
  let ?pre = "[G_bus_get_sync, Register_host_process_monitor, Start_host_process,
      Log (Info_started hid), G_socket_new_from_fd sock_fd, G_socket_set_timeout sock,
      G_cancellable_new, Dup_usb_fd, G_usb_device_close]"
  let ?post = "(if close_result env < 0 then [Assertion_failed]
        else case init_send_result env of
          None \<Rightarrow> [Log (Debug_initialized hid (usb_bus env) (usb_addr env)), Recv_ipc_msg]
        | Some error \<Rightarrow>
            [Kill_host_process hid]
            @ (case open_kill_result env of None \<Rightarrow> []
               | Some ke \<Rightarrow> [Log (Warn_cleanup_error ke)])
            @ [G_object_unref (cancellable_new_result env), G_object_unref sock,
               G_object_unref con, Log Debug_disposed, G_usb_device_open,
               Fpi_device_open_complete (Some error)])"
  have n: "new_effects w (fpi_device_tudor_open env w) =
             ?pre @ [Send_ipc_msg (init_msg env w), Close_fd (dup_result env)] @ ?post"
    by (rule new_effects_append) (simp add: open_send_trace [OF e])
  have p: "fds_closed ?post = []" "msgs_sent ?post = []"
    by (simp_all split: option.splits)
  have 1: "fds_closed (new_effects w (fpi_device_tudor_open env w)) = [dup_result env]"
    and 2: "msgs_sent (new_effects w (fpi_device_tudor_open env w)) = [init_msg env w]"
    unfolding n by (simp_all add: obs_append p del: append.simps)
  have 3: "transfer_fd (init_msg env w) = dup_result env" by (simp add: init_msg_def)
  have "fds_closed ?pre = []" by simp
  with n p(1) have 4: "\<exists>pre post. new_effects w (fpi_device_tudor_open env w) =
             pre @ [Send_ipc_msg (init_msg env w), Close_fd (dup_result env)] @ post
             \<and> fds_closed pre = [] \<and> fds_closed post = []" by blast
  from 1 2 3 4 show ?thesis by blast
qed

theorem C8_witness:
  "open_reaches_send env7 \<and> open_reaches_send env9
   \<and> fds_closed (new_effects idle_world (fpi_device_tudor_open env7 idle_world)) = [5]
   \<and> fds_closed (new_effects idle_world (fpi_device_tudor_open env9 idle_world)) = [5]"
  using C8_usb_fd_closed_once [OF env7_reaches_send(1), of idle_world]
    C8_usb_fd_closed_once [OF env9_reaches_send(1), of idle_world]
  by (simp add: env7_reaches_send env9_reaches_send)

subsection \<open>The USB device is handed back on every teardown path\<close>

lemma reopened_after_dispose:
  assumes "count_list pre G_usb_device_open = 0" "filter is_completion pre = []" "is_completion c"
  shows "reopened_once_then_completed (pre @ dispose_effects_of k d @ [G_usb_device_open, c])"
    and "reopened_once_then_completed (pre @ G_usb_device_open # dispose_effects_of k d @ [c])"
  using assms
  by (cases c; simp add: reopened_once_then_completed_def dispose_effects_obs)+

lemma close_send_failed_trace:
  assumes "\<not> host_dead (tdev w)"
  shows "trace (fpi_device_tudor_close k (Some error) w) =
     trace w @
     [Send_ipc_msg ((send_msg (tdev w))\<lparr>size_msg := Sizeof_ipc_msg_type,
                                        type_msg := IPC_MSG_SHUTDOWN\<rparr>)]
     @ dispose_effects_of k (tdev w)
     @ [G_usb_device_open, Fpi_device_close_complete (Some error)]"
  using assms
  by (simp add: fpi_device_tudor_close_def send_ipc_msg_def emit_def Let_def dispose_dev_trace
        dispose_effects_of_def)

text \<open>
  C4. Every teardown path that starts after the USB device was closed for the host and that
  reaches its completion call reopens the device exactly once and completes the pending
  operation after that: the failed INIT send when closing the duplicated descriptor
  succeeds, a receive that ends in an error, a received message other than READY, the death
  of the host during shutdown, the shutdown timeout, the close of a session whose host is
  already dead, and the failed SHUTDOWN send. The restriction on the failed INIT send is
  needed: when closing the duplicate fails too, \<open>g_assert_no_errno\<close> aborts the process
  with the device still closed (shown after the theorem).
\<close>

theorem C4_reopen_on_every_teardown_path:
  "(open_reaches_send env \<and> init_send_result env = Some e1 \<and> 0 \<le> close_result env \<longrightarrow>
      reopened_once_then_completed (new_effects w1 (fpi_device_tudor_open env w1)))
   \<and> reopened_once_then_completed (new_effects w2 (open_recv_cb k2 (Inl e2) w2))
   \<and> (type_msg msg \<noteq> IPC_MSG_READY \<longrightarrow>
      reopened_once_then_completed (new_effects w3 (open_recv_cb k3 (Inr msg) w3)))
   \<and> (in_shutdown (tdev w4) \<and> \<not> host_dead (tdev w4) \<longrightarrow>
      reopened_once_then_completed
        (new_effects w4 (host_exit_cb k4 (host_id (tdev w4)) status w4)))
   \<and> (in_shutdown (tdev w5) \<longrightarrow>
      reopened_once_then_completed (new_effects w5 (close_timeout_cb k5 w5)))
   \<and> (host_dead (tdev w6) \<longrightarrow>
      reopened_once_then_completed (new_effects w6 (fpi_device_tudor_close k6 r6 w6)))
   \<and> (\<not> host_dead (tdev w7) \<longrightarrow>
      reopened_once_then_completed (new_effects w7 (fpi_device_tudor_close k7 (Some e7) w7)))"
proof -
  have p1: "reopened_once_then_completed (new_effects w1 (fpi_device_tudor_open env w1))"
    if a: "open_reaches_send env" "init_send_result env = Some e1" "0 \<le> close_result env"
  proof -
    from a(1) obtain con sock_fd hid sock where e: "bus_get_result env = Inr con"
      "start_host_result env = Inr (sock_fd, hid)" "socket_new_result env = Inr sock"
      "0 \<le> dup_result env" by (rule open_reaches_sendE)
    have "new_effects w1 (fpi_device_tudor_open env w1) =
       [G_bus_get_sync, Register_host_process_monitor, Start_host_process, Log (Info_started hid),
        G_socket_new_from_fd sock_fd, G_socket_set_timeout sock, G_cancellable_new, Dup_usb_fd,
        G_usb_device_close, Send_ipc_msg (init_msg env w1), Close_fd (dup_result env),
        Kill_host_process hid]
       @ (case open_kill_result env of None \<Rightarrow> [] | Some ke \<Rightarrow> [Log (Warn_cleanup_error ke)])
       @ [G_object_unref (cancellable_new_result env), G_object_unref sock,
          G_object_unref con, Log Debug_disposed, G_usb_device_open,
          Fpi_device_open_complete (Some e1)]"
      using a(2,3) by (intro new_effects_append) (simp add: open_send_trace [OF e])
    then show ?thesis
      by (simp add: reopened_once_then_completed_def split: option.splits)
  qed
  have p2: "reopened_once_then_completed (new_effects w2 (open_recv_cb k2 (Inl e2) w2))"
  proof -
    have "new_effects w2 (open_recv_cb k2 (Inl e2) w2) =
        [] @ G_usb_device_open # dispose_effects_of k2 (tdev w2)
           @ [Fpi_device_open_complete (Some e2)]"
      by (rule new_effects_append) (simp add: open_recv_cb_def open_recv_cb_error_trace)
    then show ?thesis by (simp only: reopened_after_dispose(2) count_list.simps filter.simps
          is_completion.simps)
  qed
  have p3: "reopened_once_then_completed (new_effects w3 (open_recv_cb k3 (Inr msg) w3))"
    if a: "type_msg msg \<noteq> IPC_MSG_READY"
  proof -
    have "new_effects w3 (open_recv_cb k3 (Inr msg) w3) =
        [Ipc_msg_buf_free msg] @ G_usb_device_open # dispose_effects_of k3 (tdev w3)
           @ [Fpi_device_open_complete (Some (FP_DEVICE_ERROR_PROTO (type_msg msg)))]"
      by (rule new_effects_append)
         (simp add: open_recv_cb_not_ready [OF a] open_recv_cb_error_trace)
    moreover have "reopened_once_then_completed
       ([Ipc_msg_buf_free msg] @ G_usb_device_open # dispose_effects_of k3 (tdev w3)
           @ [Fpi_device_open_complete (Some (FP_DEVICE_ERROR_PROTO (type_msg msg)))])"
      by (rule reopened_after_dispose(2)) simp_all
    ultimately show ?thesis by simp
  qed
  have p4: "reopened_once_then_completed
        (new_effects w4 (host_exit_cb k4 (host_id (tdev w4)) status w4))"
    if a: "in_shutdown (tdev w4)" "\<not> host_dead (tdev w4)"
  proof -
    have "new_effects w4 (host_exit_cb k4 (host_id (tdev w4)) status w4) =
        host_exit_notes status (tdev w4) @ dispose_effects_of k4 (tdev w4)
          @ [G_usb_device_open, Fpi_device_close_complete None]"
      by (rule new_effects_append) (simp add: host_exit_cb_shutdown(2) [OF a(2) refl a(1)])
    moreover have "reopened_once_then_completed
       (host_exit_notes status (tdev w4) @ dispose_effects_of k4 (tdev w4)
          @ [G_usb_device_open, Fpi_device_close_complete None])"
      by (rule reopened_after_dispose(1)) (simp_all add: host_exit_notes_obs)
    ultimately show ?thesis by simp
  qed
  have p5: "reopened_once_then_completed (new_effects w5 (close_timeout_cb k5 w5))"
    if a: "in_shutdown (tdev w5)"
  proof -
    have "new_effects w5 (close_timeout_cb k5 w5) =
        [Log Warn_shutdown_timeout] @ dispose_effects_of k5 (tdev w5)
          @ [G_usb_device_open, Fpi_device_close_complete None]"
      by (rule new_effects_append) (simp add: close_timeout_cb_shutdown(2) [OF a])
    moreover have "reopened_once_then_completed
       ([Log Warn_shutdown_timeout] @ dispose_effects_of k5 (tdev w5)
          @ [G_usb_device_open, Fpi_device_close_complete None])"
      by (rule reopened_after_dispose(1)) simp_all
    ultimately show ?thesis by simp
  qed
  have p6: "reopened_once_then_completed (new_effects w6 (fpi_device_tudor_close k6 r6 w6))"
    if a: "host_dead (tdev w6)"
  proof -
    have "new_effects w6 (fpi_device_tudor_close k6 r6 w6) =
        [] @ dispose_effects_of k6 (tdev w6) @ [G_usb_device_open, Fpi_device_close_complete None]"
      using a
      by (intro new_effects_append)
         (simp add: fpi_device_tudor_close_def emit_def dispose_dev_trace)
    moreover have "reopened_once_then_completed
       ([] @ dispose_effects_of k6 (tdev w6) @ [G_usb_device_open, Fpi_device_close_complete None])"
      by (rule reopened_after_dispose(1)) simp_all
    ultimately show ?thesis by simp
  qed
  have p7: "reopened_once_then_completed
       (new_effects w7 (fpi_device_tudor_close k7 (Some e7) w7))"
    if a: "\<not> host_dead (tdev w7)"
  proof -
    have "new_effects w7 (fpi_device_tudor_close k7 (Some e7) w7) =
        [Send_ipc_msg ((send_msg (tdev w7))\<lparr>size_msg := Sizeof_ipc_msg_type,
                                            type_msg := IPC_MSG_SHUTDOWN\<rparr>)]
        @ dispose_effects_of k7 (tdev w7)
        @ [G_usb_device_open, Fpi_device_close_complete (Some e7)]"
      by (rule new_effects_append) (simp add: close_send_failed_trace [OF a])
    moreover have "reopened_once_then_completed
       ([Send_ipc_msg ((send_msg (tdev w7))\<lparr>size_msg := Sizeof_ipc_msg_type,
                                            type_msg := IPC_MSG_SHUTDOWN\<rparr>)]
        @ dispose_effects_of k7 (tdev w7)
        @ [G_usb_device_open, Fpi_device_close_complete (Some e7)])"
      by (rule reopened_after_dispose(1)) simp_all
    ultimately show ?thesis by simp
  qed
  from p1 p2 p3 p4 p5 p6 p7 show ?thesis by blast
qed

theorem C4_witness:
  "open_reaches_send env9 \<and> init_send_result env9 = Some (GError_from_callee 1)
   \<and> 0 \<le> close_result env9
   \<and> reopened_once_then_completed (new_effects idle_world (fpi_device_tudor_open env9 idle_world))
   \<and> reopened_once_then_completed
       (new_effects opening7 (open_recv_cb None (Inl (GError_from_callee 2)) opening7))
   \<and> type_msg shutdown_msg \<noteq> IPC_MSG_READY
   \<and> reopened_once_then_completed
       (new_effects opening7 (open_recv_cb None (Inr shutdown_msg) opening7))
   \<and> in_shutdown (tdev closing7) \<and> \<not> host_dead (tdev closing7)
   \<and> reopened_once_then_completed (new_effects closing7 (host_exit_cb None 7 0 closing7))
   \<and> reopened_once_then_completed (new_effects closing7 (close_timeout_cb None closing7))
   \<and> host_dead (tdev dead7)
   \<and> reopened_once_then_completed (new_effects dead7 (fpi_device_tudor_close None None dead7))
   \<and> \<not> host_dead (tdev session7)
   \<and> reopened_once_then_completed
       (new_effects session7
          (fpi_device_tudor_close None (Some (GError_from_callee 3)) session7))"
  using C4_reopen_on_every_teardown_path [where env = env9 and ?e1.0 = "GError_from_callee 1"
      and ?w1.0 = idle_world and ?w2.0 = opening7 and ?k2.0 = None
      and ?e2.0 = "GError_from_callee 2" and msg = shutdown_msg and ?w3.0 = opening7
      and ?k3.0 = None and ?w4.0 = closing7 and ?k4.0 = None and status = 0
      and ?w5.0 = closing7 and ?k5.0 = None and ?w6.0 = dead7 and ?k6.0 = None and ?r6.0 = None
      and ?w7.0 = session7 and ?k7.0 = None and ?e7.0 = "GError_from_callee 3"]
  by (simp add: env9_reaches_send shutdown_msg_type closing7_state dead7_state session7_state)

lemma env9_close_fails_env:
  "bus_get_result env9_close_fails = Inr 1" "start_host_result env9_close_fails = Inr (4, 9)"
  "socket_new_result env9_close_fails = Inr 2" "0 \<le> dup_result env9_close_fails"
  "dup_result env9_close_fails = 5" "close_result env9_close_fails < 0"
  "init_send_result env9_close_fails = Some (GError_from_callee 1)"
  by (simp_all add: env9_close_fails_def env9_def env7_def)

lemma env9_close_fails_trace:
  "new_effects idle_world (fpi_device_tudor_open env9_close_fails idle_world) =
     [G_bus_get_sync, Register_host_process_monitor, Start_host_process, Log (Info_started 9),
      G_socket_new_from_fd 4, G_socket_set_timeout 2, G_cancellable_new, Dup_usb_fd,
      G_usb_device_close, Send_ipc_msg (init_msg env9_close_fails idle_world), Close_fd 5,
      Assertion_failed]"
  by (rule new_effects_append)
     (simp add: open_send_trace [OF env9_close_fails_env(1-4)] env9_close_fails_env(5,6))

text \<open>
  Without the restriction C4 fails. The INIT send fails and \<open>close(usb_fd)\<close> fails: open has
  closed the USB device, and the assertion aborts the process before the disposal, the
  reopen and the completion of \<open>open()\<close>.
\<close>

theorem C4_counterexample:
  "open_reaches_send env9_close_fails
   \<and> init_send_result env9_close_fails = Some (GError_from_callee 1)
   \<and> count_list (new_effects idle_world (fpi_device_tudor_open env9_close_fails idle_world))
        G_usb_device_close = 1
   \<and> count_list (new_effects idle_world (fpi_device_tudor_open env9_close_fails idle_world))
        G_usb_device_open = 0
   \<and> filter is_completion
        (new_effects idle_world (fpi_device_tudor_open env9_close_fails idle_world)) = []
   \<and> disposals (new_effects idle_world (fpi_device_tudor_open env9_close_fails idle_world)) = 0
   \<and> aborted (fpi_device_tudor_open env9_close_fails idle_world)
   \<and> \<not> reopened_once_then_completed
        (new_effects idle_world (fpi_device_tudor_open env9_close_fails idle_world))"
proof -
  have a: "aborted (fpi_device_tudor_open env9_close_fails idle_world)"
    by (simp add: fpi_device_tudor_open_def start_host_process_def send_ipc_msg_def
          g_assert_failed_def emit_def Let_def env9_close_fails_def env9_def env7_def)
  have e: "open_reaches_send env9_close_fails"
    "init_send_result env9_close_fails = Some (GError_from_callee 1)"
    by (simp_all add: open_reaches_send_def env9_close_fails_def env9_def env7_def)
  show ?thesis
    by (simp add: a e env9_close_fails_trace reopened_once_then_completed_def disposals_def)
qed

end
